theory Spec2Isabelle
  imports Main "HOL-Library.Word"
begin

section \<open>Audio/video synchronisation module (video/vie_sync_module.cc)\<close>

text \<open>
  A shallow embedding of \<^verbatim>\<open>UpdateMeasurements\<close> and of the class
  \<^verbatim>\<open>ViESyncModule\<close> (\<^verbatim>\<open>ConfigureSync\<close>,
  \<^verbatim>\<open>TimeUntilNextProcess\<close>, \<^verbatim>\<open>Process\<close>).

  The collaborators of the module (the video coding module, the voice engine's sync
  interface, the RTP/RTCP modules, the RTP receivers, the tick clock, the RTCP list
  update and the class \<^verbatim>\<open>StreamSynchronization\<close>) are declared in headers
  that are not part of the sources at hand.  Each of them is a parameter of the model: the
  record \<open>world\<close> below says what every one of their methods answers when it is called.
  Every call of a collaborator method is written to a trace, in the order the code makes
  the calls.
\<close>

subsection \<open>Machine integers and pointers\<close>

text \<open>
  \<^verbatim>\<open>int\<close> and \<^verbatim>\<open>uint32_t\<close> are 32 bit words,
  \<^verbatim>\<open>int64_t\<close> is a 64 bit word; \<open>sint\<close> reads a word as a signed
  value.  A pointer is an optional address, \<open>None\<close> being \<^verbatim>\<open>NULL\<close>;
  two pointers are equal when their addresses are.
\<close>

type_synonym int32 = "32 word"
type_synonym uint32 = "32 word"
type_synonym int64 = "64 word"
type_synonym addr = nat
type_synonym ptr = "addr option"

subsection \<open>Collaborators\<close>

text \<open>
  \<^verbatim>\<open>RtpReceiver\<close>: \<^verbatim>\<open>Timestamp(uint32_t*)\<close> and
  \<^verbatim>\<open>LastReceivedTimeMs(int64_t*)\<close> return a bool and write through their
  argument.  \<open>Some v\<close>: the call returns true and has written \<open>v\<close>;
  \<open>None\<close>: the call returns false and has written nothing.
\<close>

record RtpReceiver =
  Timestamp :: "uint32 option"
  LastReceivedTimeMs :: "int64 option"

text \<open>
  \<^verbatim>\<open>RtpRtcp\<close>: \<^verbatim>\<open>SSRC()\<close>, and
  \<^verbatim>\<open>RemoteNTP(&secs, &frac, NULL, NULL, &rtp_timestamp)\<close>, which answers
  its return code (0 on success) and the three values it leaves in the caller's locals.
\<close>

record RtpRtcp =
  SSRC :: uint32
  RemoteNTP :: "int32 \<times> uint32 \<times> uint32 \<times> uint32"

text \<open>
  \<^verbatim>\<open>VoEVideoSync\<close>, each method taking the channel id first:
  \<^verbatim>\<open>GetDelayEstimate\<close> answers (return code, jitter buffer delay, playout
  buffer delay), \<^verbatim>\<open>GetRtpRtcp\<close> answers (return code, RTP/RTCP module,
  RTP receiver), \<^verbatim>\<open>SetMinimumPlayoutDelay\<close> answers its return code.
\<close>

record VoEVideoSync =
  GetDelayEstimate :: "int32 \<Rightarrow> int32 \<times> int32 \<times> int32"
  GetRtpRtcp :: "int32 \<Rightarrow> int32 \<times> ptr \<times> ptr"
  SetMinimumPlayoutDelay :: "int32 \<Rightarrow> int32 \<Rightarrow> int32"

text \<open>
  One entry of the RTCP list holds the three values of a sender report that
  \<^verbatim>\<open>UpdateRtcpList\<close> is given: NTP seconds, NTP fraction, RTP timestamp.
\<close>

type_synonym RtcpMeasurement = "uint32 \<times> uint32 \<times> uint32"
type_synonym RtcpList = "RtcpMeasurement list"

text \<open>\<^verbatim>\<open>StreamSynchronization::Measurements\<close>, with the three fields the code uses.\<close>

record Measurements =
  latest_timestamp :: uint32
  latest_receive_time_ms :: int64
  rtcp :: RtcpList

text \<open>
  Everything outside the module.  \<open>'s\<close> is the internal state of a
  \<^verbatim>\<open>StreamSynchronization\<close> object; its constructor and its two methods
  are parameters, and each method hands back the object's state after the call.
  \<^item> \<open>dcheck_is_on\<close>, \<open>assert_is_on\<close>: whether the build compiles
    \<^verbatim>\<open>RTC_DCHECK\<close> and \<^verbatim>\<open>assert\<close> in.
  \<^item> \<open>Now\<close>: \<^verbatim>\<open>TickTime::Now()\<close> in ticks; \<open>Milliseconds\<close>:
    \<^verbatim>\<open>TickInterval::Milliseconds()\<close> of a difference of ticks.
  \<^item> \<open>vcm_Delay\<close>: \<^verbatim>\<open>vcm_->Delay()\<close>.
  \<^item> \<open>voe_at\<close>, \<open>rtp_rtcp_at\<close>, \<open>receiver_at\<close>: the object a non-null
    pointer points to.
  \<^item> \<open>UpdateRtcpList secs frac ts list\<close>: the bool returned and the list afterwards.
  \<^item> \<open>ComputeRelativeDelay sync audio video\<close>: (returned bool, relative delay, state).
  \<^item> \<open>ComputeDelays sync relative_delay current_audio target_audio target_video\<close>,
    the last two being the values the in/out arguments hold at the call: (returned bool,
    target audio delay, target video delay, state).
\<close>

record 's world =
  dcheck_is_on :: bool
  assert_is_on :: bool
  Now :: int64
  Milliseconds :: "int64 \<Rightarrow> int64"
  vcm_Delay :: int32
  voe_at :: "addr \<Rightarrow> VoEVideoSync"
  rtp_rtcp_at :: "addr \<Rightarrow> RtpRtcp"
  receiver_at :: "addr \<Rightarrow> RtpReceiver"
  UpdateRtcpList :: "uint32 \<Rightarrow> uint32 \<Rightarrow> uint32 \<Rightarrow> RtcpList \<Rightarrow> bool \<times> RtcpList"
  new_StreamSynchronization :: "uint32 \<Rightarrow> int32 \<Rightarrow> 's"
  ComputeRelativeDelay :: "'s \<Rightarrow> Measurements \<Rightarrow> Measurements \<Rightarrow> bool \<times> int32 \<times> 's"
  ComputeDelays :: "'s \<Rightarrow> int32 \<Rightarrow> int32 \<Rightarrow> int32 \<Rightarrow> int32 \<Rightarrow> bool \<times> int32 \<times> int32 \<times> 's"

subsection \<open>The trace of collaborator calls\<close>

text \<open>
  One event per call, with the arguments and what the call answered.  The setters are
  \<open>Voe_SetMinimumPlayoutDelay channel delay return_code\<close> and
  \<open>Vcm_SetMinimumPlayoutDelay delay\<close>; \<open>Log_Error\<close> is a line written with
  \<^verbatim>\<open>LOG(LS_ERROR)\<close>.
\<close>

datatype event =
    Vcm_Delay int32
  | Voe_GetDelayEstimate int32 int32 int32 int32
  | Voe_GetRtpRtcp int32 int32
  | Receiver_Timestamp bool
  | Receiver_LastReceivedTimeMs bool
  | RtpRtcp_RemoteNTP int32
  | Rtcp_UpdateRtcpList bool
  | Sync_ComputeRelativeDelay bool int32
  | Sync_ComputeDelays int32 int32 int32 int32 bool int32 int32
  | Voe_SetMinimumPlayoutDelay int32 int32 int32
  | Log_Error string
  | Vcm_SetMinimumPlayoutDelay int32

text \<open>The calls that set a playout delay on a collaborator.\<close>

fun is_setter :: "event \<Rightarrow> bool" where
  "is_setter (Voe_SetMinimumPlayoutDelay c d r) = True"
| "is_setter (Vcm_SetMinimumPlayoutDelay d) = True"
| "is_setter e = False"

text \<open>
  The calls whose answer makes \<^verbatim>\<open>Process\<close> return early: a getter or a
  computation that reports failure.
\<close>

fun stage_failed :: "event \<Rightarrow> bool" where
  "stage_failed (Voe_GetDelayEstimate c r j p) = (r \<noteq> 0)"
| "stage_failed (Voe_GetRtpRtcp c r) = (r \<noteq> 0)"
| "stage_failed (Receiver_Timestamp ok) = (\<not> ok)"
| "stage_failed (Receiver_LastReceivedTimeMs ok) = (\<not> ok)"
| "stage_failed (RtpRtcp_RemoteNTP r) = (r \<noteq> 0)"
| "stage_failed (Rtcp_UpdateRtcpList ok) = (\<not> ok)"
| "stage_failed (Sync_ComputeRelativeDelay ok d) = (\<not> ok)"
| "stage_failed (Sync_ComputeDelays d a ta tv ok ta' tv') = (\<not> ok)"
| "stage_failed e = False"

subsection \<open>Errors\<close>

text \<open>
  What ends the program instead of returning: a failed \<^verbatim>\<open>RTC_DCHECK\<close>, a
  failed \<^verbatim>\<open>assert\<close>, and a call through a null pointer.
\<close>

datatype error = DCheckFailed | AssertionFailed | NullDereference

subsection \<open>UpdateMeasurements\<close>

text \<open>
  The function writes into \<^verbatim>\<open>*stream\<close> as it goes.  The result is the
  return code, the stream afterwards and the calls made.
\<close>

definition UpdateMeasurements ::
  "'s world \<Rightarrow> Measurements \<Rightarrow> RtpRtcp \<Rightarrow> RtpReceiver \<Rightarrow> int32 \<times> Measurements \<times> event list" where
  "UpdateMeasurements w stream rtp_rtcp receiver =
    (case Timestamp receiver of
       None \<Rightarrow> (- 1, stream, [Receiver_Timestamp False])
     | Some ts \<Rightarrow>
        let stream1 = stream\<lparr>latest_timestamp := ts\<rparr> in
        (case LastReceivedTimeMs receiver of
           None \<Rightarrow> (- 1, stream1, [Receiver_Timestamp True, Receiver_LastReceivedTimeMs False])
         | Some t \<Rightarrow>
            let stream2 = stream1\<lparr>latest_receive_time_ms := t\<rparr> in
            (case RemoteNTP rtp_rtcp of
               (r, ntp_secs, ntp_frac, rtp_timestamp) \<Rightarrow>
                 if 0 \<noteq> r then
                   (- 1, stream2,
                    [Receiver_Timestamp True, Receiver_LastReceivedTimeMs True, RtpRtcp_RemoteNTP r])
                 else
                   (case UpdateRtcpList w ntp_secs ntp_frac rtp_timestamp (rtcp stream2) of
                      (ok, l) \<Rightarrow>
                        let stream3 = stream2\<lparr>rtcp := l\<rparr> in
                        (if \<not> ok then - 1 else 0, stream3,
                         [Receiver_Timestamp True, Receiver_LastReceivedTimeMs True,
                          RtpRtcp_RemoteNTP r, Rtcp_UpdateRtcpList ok])))))"

subsection \<open>ViESyncModule\<close>

text \<open>
  The data members; \<open>m_x\<close> stands for the member \<^verbatim>\<open>x_\<close>.
  \<open>m_sync\<close> is the owning pointer to the
  \<^verbatim>\<open>StreamSynchronization\<close> object: \<open>None\<close> when empty, else the
  object's state.  \<^verbatim>\<open>vcm_\<close> is fixed at construction and is the video
  coding module the world answers for.
\<close>

record 's ViESyncModule =
  m_video_receiver :: ptr
  m_video_rtp_rtcp :: ptr
  m_voe_channel_id :: int32
  m_voe_sync_interface :: ptr
  m_last_sync_time :: int64
  m_sync :: "'s option"
  m_video_measurement :: Measurements
  m_audio_measurement :: Measurements

text \<open>A default-constructed \<^verbatim>\<open>Measurements\<close>.\<close>

definition Measurements_init :: Measurements where
  "Measurements_init = \<lparr>latest_timestamp = 0, latest_receive_time_ms = 0, rtcp = []\<rparr>"

text \<open>The constructor.\<close>

definition ViESyncModule_new :: "'s world \<Rightarrow> 's ViESyncModule" where
  "ViESyncModule_new w =
    \<lparr>m_video_receiver = None, m_video_rtp_rtcp = None, m_voe_channel_id = - 1,
     m_voe_sync_interface = None, m_last_sync_time = Now w, m_sync = None,
     m_video_measurement = Measurements_init, m_audio_measurement = Measurements_init\<rparr>"

text \<open>
  \<^verbatim>\<open>ConfigureSync\<close>.  The last statement calls
  \<^verbatim>\<open>video_rtp_rtcp_->SSRC()\<close>, through the pointer just stored.
\<close>

definition ConfigureSync ::
  "'s world \<Rightarrow> int32 \<Rightarrow> ptr \<Rightarrow> ptr \<Rightarrow> ptr \<Rightarrow> 's ViESyncModule \<Rightarrow> error + 's ViESyncModule" where
  "ConfigureSync w voe_channel_id voe_sync_interface video_rtcp_module video_receiver m =
    (if voe_channel_id \<noteq> - 1 \<and> dcheck_is_on w \<and> voe_sync_interface = None then Inl DCheckFailed
     else if m_voe_channel_id m = voe_channel_id \<and>
             m_voe_sync_interface m = voe_sync_interface \<and>
             m_video_receiver m = video_receiver \<and>
             m_video_rtp_rtcp m = video_rtcp_module then Inr m
     else
       let m1 = m\<lparr>m_voe_channel_id := voe_channel_id,
                  m_voe_sync_interface := voe_sync_interface,
                  m_video_receiver := video_receiver,
                  m_video_rtp_rtcp := video_rtcp_module\<rparr>
       in (case m_video_rtp_rtcp m1 of
             None \<Rightarrow> Inl NullDereference
           | Some a \<Rightarrow>
               Inr (m1\<lparr>m_sync := Some (new_StreamSynchronization w (SSRC (rtp_rtcp_at w a))
                                        voe_channel_id)\<rparr>)))"

text \<open>\<^verbatim>\<open>TimeUntilNextProcess\<close>, in 64 bit arithmetic.\<close>

definition kSyncIntervalMs :: int64 where
  "kSyncIntervalMs = 1000"

definition TimeUntilNextProcess :: "'s world \<Rightarrow> 's ViESyncModule \<Rightarrow> int64" where
  "TimeUntilNextProcess w m = kSyncIntervalMs - Milliseconds w (Now w - m_last_sync_time m)"

text \<open>
  \<^verbatim>\<open>Process\<close>.  The result is an error when the program stops at a failed
  assertion or at a call through a null pointer (no setter has been called by then: both
  setter calls are the last statements).  Otherwise it is the module afterwards and the
  trace of the collaborator calls made.  \<^verbatim>\<open>*video_rtp_rtcp_\<close>,
  \<^verbatim>\<open>*video_receiver_\<close>, \<^verbatim>\<open>*voice_rtp_rtcp\<close> and
  \<^verbatim>\<open>*voice_receiver\<close> are dereferenced where they are handed to
  \<^verbatim>\<open>UpdateMeasurements\<close>.
\<close>

definition Process :: "'s world \<Rightarrow> 's ViESyncModule \<Rightarrow> error + 's ViESyncModule \<times> event list" where
  "Process w m0 =
    (let m = m0\<lparr>m_last_sync_time := Now w\<rparr>;
         current_video_delay_ms = vcm_Delay w;
         t0 = [Vcm_Delay current_video_delay_ms]
     in
     if m_voe_channel_id m = - 1 then Inr (m, t0)
     else if assert_is_on w \<and> \<not> (m_video_rtp_rtcp m \<noteq> None \<and> m_voe_sync_interface m \<noteq> None)
       then Inl AssertionFailed
     else if assert_is_on w \<and> m_sync m = None then Inl AssertionFailed
     else
     (case m_voe_sync_interface m of
        None \<Rightarrow> Inl NullDereference
      | Some voe \<Rightarrow>
     (case GetDelayEstimate (voe_at w voe) (m_voe_channel_id m) of
        (r1, audio_jitter_buffer_delay_ms, playout_buffer_delay_ms) \<Rightarrow>
     let t1 = t0 @ [Voe_GetDelayEstimate (m_voe_channel_id m) r1
                      audio_jitter_buffer_delay_ms playout_buffer_delay_ms]
     in
     if r1 \<noteq> 0 then Inr (m, t1)
     else
     let current_audio_delay_ms = audio_jitter_buffer_delay_ms + playout_buffer_delay_ms in
     (case GetRtpRtcp (voe_at w voe) (m_voe_channel_id m) of
        (r2, voice_rtp_rtcp, voice_receiver) \<Rightarrow>
     let t2 = t1 @ [Voe_GetRtpRtcp (m_voe_channel_id m) r2] in
     if 0 \<noteq> r2 then Inr (m, t2)
     else if assert_is_on w \<and> voice_rtp_rtcp = None then Inl AssertionFailed
     else if assert_is_on w \<and> voice_receiver = None then Inl AssertionFailed
     else
     (case (m_video_rtp_rtcp m, m_video_receiver m) of
        (Some video_rtp_rtcp, Some video_receiver) \<Rightarrow>
     (case UpdateMeasurements w (m_video_measurement m)
             (rtp_rtcp_at w video_rtp_rtcp) (receiver_at w video_receiver) of
        (r3, video_measurement, t3) \<Rightarrow>
     let m1 = m\<lparr>m_video_measurement := video_measurement\<rparr> in
     if r3 \<noteq> 0 then Inr (m1, t2 @ t3)
     else
     (case (voice_rtp_rtcp, voice_receiver) of
        (Some voice_rtp_rtcp', Some voice_receiver') \<Rightarrow>
     (case UpdateMeasurements w (m_audio_measurement m1)
             (rtp_rtcp_at w voice_rtp_rtcp') (receiver_at w voice_receiver') of
        (r4, audio_measurement, t4) \<Rightarrow>
     let m2 = m1\<lparr>m_audio_measurement := audio_measurement\<rparr> in
     if r4 \<noteq> 0 then Inr (m2, t2 @ t3 @ t4)
     else
     (case m_sync m2 of
        None \<Rightarrow> Inl NullDereference
      | Some sync \<Rightarrow>
     (case ComputeRelativeDelay w sync (m_audio_measurement m2) (m_video_measurement m2) of
        (ok5, relative_delay_ms, sync1) \<Rightarrow>
     let m3 = m2\<lparr>m_sync := Some sync1\<rparr>;
         t5 = t2 @ t3 @ t4 @ [Sync_ComputeRelativeDelay ok5 relative_delay_ms]
     in
     if \<not> ok5 then Inr (m3, t5)
     else
     (case ComputeDelays w sync1 relative_delay_ms current_audio_delay_ms
             0 current_video_delay_ms of
        (ok6, target_audio_delay_ms, target_video_delay_ms, sync2) \<Rightarrow>
     let m4 = m3\<lparr>m_sync := Some sync2\<rparr>;
         t6 = t5 @ [Sync_ComputeDelays relative_delay_ms current_audio_delay_ms
                      0 current_video_delay_ms ok6 target_audio_delay_ms target_video_delay_ms]
     in
     if \<not> ok6 then Inr (m4, t6)
     else
     let r7 = SetMinimumPlayoutDelay (voe_at w voe) (m_voe_channel_id m) target_audio_delay_ms
     in
     Inr (m4,
          t6 @ [Voe_SetMinimumPlayoutDelay (m_voe_channel_id m) target_audio_delay_ms r7]
             @ (if r7 = - 1 then [Log_Error ''Error setting voice delay.''] else [])
             @ [Vcm_SetMinimumPlayoutDelay target_video_delay_ms])))))
      | _ \<Rightarrow> Inl NullDereference))
      | _ \<Rightarrow> Inl NullDereference)))))"

text \<open>
  Successive calls of \<^verbatim>\<open>Process\<close>, one per world (what the collaborators
  answer may change from one cycle to the next); the traces are concatenated.
\<close>

fun run_cycles :: "'s world list \<Rightarrow> 's ViESyncModule \<Rightarrow> error + 's ViESyncModule \<times> event list" where
  "run_cycles [] m = Inr (m, [])"
| "run_cycles (w # ws) m =
    (case Process w m of
       Inl e \<Rightarrow> Inl e
     | Inr (m1, t1) \<Rightarrow>
        (case run_cycles ws m1 of
           Inl e \<Rightarrow> Inl e
         | Inr (m2, t2) \<Rightarrow> Inr (m2, t1 @ t2)))"

text \<open>
  The controller is disabled when no voice channel is bound: \<^verbatim>\<open>Process\<close>
  tests \<^verbatim>\<open>voe_channel_id_ == -1\<close>.
\<close>

definition Disabled :: "'s ViESyncModule \<Rightarrow> bool" where
  "Disabled m = (m_voe_channel_id m = - 1)"

text \<open>
  The configuration of the module: the four members that \<^verbatim>\<open>ConfigureSync\<close>
  compares and stores, and whether a \<^verbatim>\<open>StreamSynchronization\<close> object is
  held.
\<close>

definition same_config :: "'s ViESyncModule \<Rightarrow> 's ViESyncModule \<Rightarrow> bool" where
  "same_config m m' =
    (m_voe_channel_id m' = m_voe_channel_id m \<and>
     m_voe_sync_interface m' = m_voe_sync_interface m \<and>
     m_video_receiver m' = m_video_receiver m \<and>
     m_video_rtp_rtcp m' = m_video_rtp_rtcp m \<and>
     (m_sync m' = None) = (m_sync m = None))"

text \<open>The world in which every call that sets the voice playout delay answers -1.\<close>

definition audio_setter_failing :: "'s world \<Rightarrow> 's world" where
  "audio_setter_failing w =
    w\<lparr>voe_at := \<lambda>a. (voe_at w a)\<lparr>SetMinimumPlayoutDelay := \<lambda>c d. - 1\<rparr>\<rparr>"

subsection \<open>The delay distributor\<close>

text \<open>
  Modelled from the spec: \<^verbatim>\<open>StreamSynchronization::ComputeDelays\<close> is
  implemented in video/stream_synchronization.cc, which is not among the sources; only its
  call in \<^verbatim>\<open>Process\<close> is.  The definition follows section 4.4 of the
  specification, sentence by sentence:
  \<^item> within the tolerance band around zero the outputs are the current delays;
  \<^item> otherwise one stream's delay is increased and the other is left as it is;
  \<^item> the increase is the measured skew, limited to the maximum step per cycle;
  \<^item> the total requested delay is clamped to the configured maximum;
  \<^item> no delay is reduced below its current value (the video delay is not reduced below
    the current pipeline delay): the current delay is a floor of the target, and the floor
    is applied after the clamp, so that a current delay above the configured maximum is
    left as it is.
  Which stream is increased follows the scenario of section 8 (a relative delay of 100 ms
  raises the audio delay from 20 ms to 50 ms with a step of 30 ms, and leaves the video
  delay at 40 ms).  The three constants are not fixed by the specification and are the
  configuration; the maximum step is a magnitude, a natural number.  Delays are in
  milliseconds, as unbounded integers.
\<close>

record delay_config =
  max_step_ms :: nat
  max_delay_ms :: int
  hysteresis_ms :: int

definition ComputeDelays_spec :: "delay_config \<Rightarrow> int \<Rightarrow> int \<Rightarrow> int \<Rightarrow> int \<times> int" where
  "ComputeDelays_spec cfg relative_delay_ms current_audio_delay_ms current_video_delay_ms =
    (if \<bar>relative_delay_ms\<bar> \<le> hysteresis_ms cfg then
       (current_audio_delay_ms, current_video_delay_ms)
     else if 0 < relative_delay_ms then
       (max current_audio_delay_ms
          (min (current_audio_delay_ms + min relative_delay_ms (int (max_step_ms cfg)))
             (max_delay_ms cfg)),
        current_video_delay_ms)
     else
       (current_audio_delay_ms,
        max current_video_delay_ms
          (min (current_video_delay_ms + min (- relative_delay_ms) (int (max_step_ms cfg)))
             (max_delay_ms cfg))))"

subsection \<open>Sample collaborators\<close>

text \<open>
  A receiver that has received packets, one that has a timestamp but no receive time yet,
  an RTP/RTCP module that has seen a sender report, and a voice engine whose calls all
  succeed.
\<close>

definition receiver_ready :: RtpReceiver where
  "receiver_ready = \<lparr>Timestamp = Some 90000, LastReceivedTimeMs = Some 5000\<rparr>"

definition receiver_no_time :: RtpReceiver where
  "receiver_no_time = \<lparr>Timestamp = Some 90000, LastReceivedTimeMs = None\<rparr>"

definition rtp_rtcp_ready :: RtpRtcp where
  "rtp_rtcp_ready = \<lparr>SSRC = 7, RemoteNTP = (0, 100, 0, 45000)\<rparr>"

definition voe_ready :: VoEVideoSync where
  "voe_ready =
    \<lparr>GetDelayEstimate = \<lambda>c. (0, 20, 15),
     GetRtpRtcp = \<lambda>c. (0, Some 3, Some 4),
     SetMinimumPlayoutDelay = \<lambda>c d. 0\<rparr>"

text \<open>
  A world in which every stage of a cycle succeeds.  The state of the stand-in
  \<^verbatim>\<open>StreamSynchronization\<close> object counts the calls of
  \<^verbatim>\<open>ComputeDelays\<close>; one tick is one millisecond.
\<close>

definition world_ready :: "nat world" where
  "world_ready =
    \<lparr>dcheck_is_on = True, assert_is_on = True, Now = 2000, Milliseconds = \<lambda>d. d,
     vcm_Delay = 40,
     voe_at = \<lambda>a. voe_ready,
     rtp_rtcp_at = \<lambda>a. rtp_rtcp_ready,
     receiver_at = \<lambda>a. receiver_ready,
     UpdateRtcpList = \<lambda>secs frac ts l. (True, (secs, frac, ts) # l),
     new_StreamSynchronization = \<lambda>ssrc channel. 0,
     ComputeRelativeDelay = \<lambda>s a v. (True, 100, s),
     ComputeDelays = \<lambda>s d a ta tv. (True, a + 30, tv, Suc s)\<rparr>"

text \<open>The same world, with a voice engine that has no delay estimate yet.\<close>

definition world_no_estimate :: "nat world" where
  "world_no_estimate =
    world_ready\<lparr>voe_at := \<lambda>a. voe_ready\<lparr>GetDelayEstimate := \<lambda>c. (- 1, 0, 0)\<rparr>\<rparr>"

text \<open>
  A module bound to voice channel 0, after some cycles: the object behind
  \<^verbatim>\<open>sync_\<close> has seen three calls, and the video stream has a sender report
  in its list.
\<close>

definition module_bound :: "nat ViESyncModule" where
  "module_bound =
    \<lparr>m_video_receiver = Some 5, m_video_rtp_rtcp = Some 2, m_voe_channel_id = 0,
     m_voe_sync_interface = Some 1, m_last_sync_time = 0, m_sync = Some 3,
     m_video_measurement =
       \<lparr>latest_timestamp = 80000, latest_receive_time_ms = 4000, rtcp = [(99, 0, 40000)]\<rparr>,
     m_audio_measurement = Measurements_init\<rparr>"

section \<open>The scheduler hint\<close>

text \<open>
  C6 (as stated): \<^verbatim>\<open>TimeUntilNextProcess\<close> is non-negative whatever the
  current time and the time of the last cycle.  It is not: with the last cycle at tick 0
  and the clock at tick 2000, one tick being a millisecond, the function answers
  \<open>1000 - 2000 = -1000\<close>.
\<close>

theorem TimeUntilNextProcess_negative:
  "sint (TimeUntilNextProcess world_ready module_bound) = - 1000"
  by (simp add: TimeUntilNextProcess_def kSyncIntervalMs_def world_ready_def module_bound_def)

text \<open>
  C6 (amended): unless the subtraction overflows 64 bits,
  \<^verbatim>\<open>TimeUntilNextProcess\<close> answers 1000 minus the milliseconds elapsed
  since the last cycle, as a signed number; so the answer is non-negative exactly when at
  most 1000 ms have elapsed, and negative when the last cycle is further back.
\<close>

theorem TimeUntilNextProcess_sign:
  assumes "- (2 ^ 63) + 1000 < sint (Milliseconds w (Now w - m_last_sync_time m))"
  shows "sint (TimeUntilNextProcess w m) =
           1000 - sint (Milliseconds w (Now w - m_last_sync_time m)) \<and>
         (0 \<le> sint (TimeUntilNextProcess w m)) =
           (sint (Milliseconds w (Now w - m_last_sync_time m)) \<le> 1000)"
proof -
  define e where "e = Milliseconds w (Now w - m_last_sync_time m)"
  have r: "- (2 ^ 63) \<le> sint e" "sint e < 2 ^ 63"
    using sint_ge [of e] sint_lt [of e] by simp_all
  have lo: "- (2 ^ 63) + 1000 < sint e"
    using assms by (simp add: e_def)
  have "sint (1000 - e) = 1000 - sint e"
  proof -
    have "signed_take_bit 63 (1000 - sint e) = 1000 - sint e"
      by (rule signed_take_bit_int_eq_self) (use lo r in simp_all)
    then show ?thesis by (simp add: sint_word_ariths)
  qed
  then show ?thesis
    by (simp add: TimeUntilNextProcess_def kSyncIntervalMs_def e_def [symmetric])
qed

theorem TimeUntilNextProcess_sign_witness:
  "- (2 ^ 63) + 1000 < sint (Milliseconds world_ready (Now world_ready - 1500)) \<and>
   sint (Milliseconds world_ready (Now world_ready - 1500)) = 500 \<and>
   sint (TimeUntilNextProcess world_ready (module_bound\<lparr>m_last_sync_time := 1500\<rparr>)) = 500 \<and>
   sint (Milliseconds world_ready (Now world_ready - 0)) = 2000 \<and>
   sint (TimeUntilNextProcess world_ready (module_bound\<lparr>m_last_sync_time := 0\<rparr>)) = - 1000"
  using TimeUntilNextProcess_sign [of world_ready "module_bound\<lparr>m_last_sync_time := 1500\<rparr>"]
    TimeUntilNextProcess_sign [of world_ready "module_bound\<lparr>m_last_sync_time := 0\<rparr>"]
  by (simp add: world_ready_def)

section \<open>Facts shared by the proofs\<close>

lemmas sample_defs = world_ready_def world_no_estimate_def module_bound_def voe_ready_def
  receiver_ready_def rtp_rtcp_ready_def Measurements_init_def

text \<open>What a call of \<^verbatim>\<open>UpdateMeasurements\<close> leaves in the trace.\<close>

lemma UpdateMeasurements_no_setter:
  "UpdateMeasurements w s r rc = (ret, s', t) \<Longrightarrow> e \<in> set t \<Longrightarrow> \<not> is_setter e"
  by (auto simp: UpdateMeasurements_def Let_def split: option.splits prod.splits if_splits)

lemma UpdateMeasurements_ok_trace:
  "UpdateMeasurements w s r rc = (0, s', t) \<Longrightarrow> e \<in> set t \<Longrightarrow> \<not> stage_failed e"
  by (auto simp: UpdateMeasurements_def Let_def split: option.splits prod.splits if_splits)

lemma UpdateMeasurements_no_ComputeDelays:
  "UpdateMeasurements w s r rc = (ret, s', t) \<Longrightarrow>
   Sync_ComputeDelays d a ta0 tv0 ok ta tv \<notin> set t"
  by (auto simp: UpdateMeasurements_def Let_def split: option.splits prod.splits if_splits)

lemma UpdateMeasurements_no_ComputeRelativeDelay:
  "UpdateMeasurements w s r rc = (ret, s', t) \<Longrightarrow>
   Sync_ComputeRelativeDelay ok d \<notin> set t"
  by (auto simp: UpdateMeasurements_def Let_def split: option.splits prod.splits if_splits)

text \<open>A cycle of a disabled module; the configuration across cycles.\<close>

lemma Process_disabled:
  "m_voe_channel_id m = - 1 \<Longrightarrow>
   Process w m = Inr (m\<lparr>m_last_sync_time := Now w\<rparr>, [Vcm_Delay (vcm_Delay w)])"
  by (simp add: Process_def)

lemma Process_same_config:
  "Process w m = Inr (m', t) \<Longrightarrow> same_config m m'"
  by (auto simp: Process_def same_config_def Let_def split: option.splits prod.splits if_splits)

lemma Process_failed_no_setter:
  "Process w m = Inr (m', t) \<Longrightarrow> \<exists>e\<in>set t. stage_failed e \<Longrightarrow> e \<in> set t \<Longrightarrow>
   \<not> is_setter e"
  by (auto simp: Process_def Let_def split: option.splits prod.splits if_splits
      dest: UpdateMeasurements_no_setter UpdateMeasurements_ok_trace)

lemma same_config_trans: "same_config a b \<Longrightarrow> same_config b c \<Longrightarrow> same_config a c"
  by (simp add: same_config_def)

lemma run_cycles_same_config:
  "run_cycles ws m = Inr (m', t) \<Longrightarrow> same_config m m'"
proof (induction ws arbitrary: m m' t)
  case Nil
  then show ?case by (simp add: same_config_def)
next
  case (Cons w ws)
  then show ?case
    by (auto split: sum.splits prod.splits dest: Process_same_config intro: same_config_trans)
qed

lemma run_cycles_disabled:
  "Disabled m \<Longrightarrow>
   \<exists>m' t. run_cycles ws m = Inr (m', t) \<and> Disabled m' \<and> (\<forall>e\<in>set t. \<not> is_setter e)"
proof (induction ws arbitrary: m)
  case Nil
  then show ?case by simp
next
  case (Cons w ws)
  let ?m1 = "m\<lparr>m_last_sync_time := Now w\<rparr>"
  have p: "Process w m = Inr (?m1, [Vcm_Delay (vcm_Delay w)])"
    using Cons.prems by (simp add: Process_disabled Disabled_def)
  have "Disabled ?m1"
    using Cons.prems by (simp add: Disabled_def)
  from Cons.IH [OF this] obtain m' t where
    r: "run_cycles ws ?m1 = Inr (m', t)" "Disabled m'" "\<forall>e\<in>set t. \<not> is_setter e"
    by blast
  show ?case using p r by simp
qed

text \<open>What \<^verbatim>\<open>ConfigureSync\<close> stores, and the call with the stored arguments.\<close>

lemma ConfigureSync_stores:
  "ConfigureSync w ch voe vrtp recv m = Inr m1 \<Longrightarrow>
   m_voe_channel_id m1 = ch \<and> m_voe_sync_interface m1 = voe \<and>
   m_video_receiver m1 = recv \<and> m_video_rtp_rtcp m1 = vrtp \<and>
   \<not> (ch \<noteq> - 1 \<and> dcheck_is_on w \<and> voe = None)"
  by (auto simp: ConfigureSync_def Let_def split: if_splits option.splits)

lemma ConfigureSync_same_arguments:
  "m_voe_channel_id m = ch \<Longrightarrow> m_voe_sync_interface m = voe \<Longrightarrow>
   m_video_receiver m = recv \<Longrightarrow> m_video_rtp_rtcp m = vrtp \<Longrightarrow>
   \<not> (ch \<noteq> - 1 \<and> dcheck_is_on w \<and> voe = None) \<Longrightarrow>
   ConfigureSync w ch voe vrtp recv m = Inr m"
  by (simp add: ConfigureSync_def)

text \<open>The world with a failing voice setter answers every other call as before.\<close>

lemma audio_setter_failing_fields [simp]:
  "Now (audio_setter_failing w) = Now w"
  "vcm_Delay (audio_setter_failing w) = vcm_Delay w"
  "assert_is_on (audio_setter_failing w) = assert_is_on w"
  "GetDelayEstimate (voe_at (audio_setter_failing w) x) = GetDelayEstimate (voe_at w x)"
  "GetRtpRtcp (voe_at (audio_setter_failing w) x) = GetRtpRtcp (voe_at w x)"
  "SetMinimumPlayoutDelay (voe_at (audio_setter_failing w) x) c d1 = - 1"
  "rtp_rtcp_at (audio_setter_failing w) = rtp_rtcp_at w"
  "receiver_at (audio_setter_failing w) = receiver_at w"
  "ComputeRelativeDelay (audio_setter_failing w) = ComputeRelativeDelay w"
  "ComputeDelays (audio_setter_failing w) = ComputeDelays w"
  "UpdateRtcpList (audio_setter_failing w) = UpdateRtcpList w"
  by (simp_all add: audio_setter_failing_def)

lemma audio_setter_failing_UpdateMeasurements [simp]:
  "UpdateMeasurements (audio_setter_failing w) = UpdateMeasurements w"
  by (auto simp: UpdateMeasurements_def fun_eq_iff Let_def split: option.splits prod.splits)



text \<open>The call of \<^verbatim>\<open>ComputeDelays\<close> in a cycle.\<close>

lemma Process_ComputeDelays_call:
  assumes "Process w m = Inr (m', t)"
    and "Sync_ComputeDelays d a ta0 tv0 ok ta tv \<in> set t"
  shows "\<exists>voe j p s0 s s'.
          m_voe_sync_interface m = Some voe \<and>
          GetDelayEstimate (voe_at w voe) (m_voe_channel_id m) = (0, j, p) \<and>
          Voe_GetDelayEstimate (m_voe_channel_id m) 0 j p \<in> set t \<and>
          a = j + p \<and> ta0 = 0 \<and> tv0 = vcm_Delay w \<and>
          m_sync m = Some s0 \<and>
          ComputeRelativeDelay w s0 (m_audio_measurement m') (m_video_measurement m') =
            (True, d, s) \<and>
          ComputeDelays w s d (j + p) 0 (vcm_Delay w) = (ok, ta, tv, s') \<and>
          m_sync m' = Some s'"
  using assms
  by (auto simp: Process_def Let_def split: option.splits prod.splits if_splits
      dest: UpdateMeasurements_no_ComputeDelays)

lemma Process_calls_ComputeDelays:
  assumes "Process w m = Inr (m', t)" and "Sync_ComputeRelativeDelay True d \<in> set t"
  shows "\<exists>e\<in>set t. case e of Sync_ComputeDelays d' a ta0 tv0 ok ta tv \<Rightarrow> d' = d
                       | _ \<Rightarrow> False"
  using assms
  by (auto simp: Process_def Let_def split: option.splits prod.splits if_splits
      dest: UpdateMeasurements_no_ComputeRelativeDelay)

text \<open>Signed reading of a 32 bit sum that does not overflow.\<close>

lemma sint_add_in_range:
  fixes j p :: int32
  assumes "- (2 ^ 31) \<le> sint j + sint p" and "sint j + sint p < 2 ^ 31"
  shows "sint (j + p) = sint j + sint p"
proof -
  have "signed_take_bit 31 (sint j + sint p) = sint j + sint p"
    by (rule signed_take_bit_int_eq_self) (use assms in simp_all)
  then show ?thesis by (simp add: sint_word_ariths)
qed

text \<open>Two cycles on the sample module, evaluated.\<close>

lemma Process_world_ready:
  "Process world_ready module_bound =
    Inr (module_bound\<lparr>m_last_sync_time := 2000,
           m_video_measurement :=
             \<lparr>latest_timestamp = 90000, latest_receive_time_ms = 5000,
              rtcp = [(100, 0, 45000), (99, 0, 40000)]\<rparr>,
           m_audio_measurement :=
             \<lparr>latest_timestamp = 90000, latest_receive_time_ms = 5000,
              rtcp = [(100, 0, 45000)]\<rparr>,
           m_sync := Some 4\<rparr>,
         [Vcm_Delay 40, Voe_GetDelayEstimate 0 0 20 15, Voe_GetRtpRtcp 0 0,
          Receiver_Timestamp True, Receiver_LastReceivedTimeMs True, RtpRtcp_RemoteNTP 0,
          Rtcp_UpdateRtcpList True,
          Receiver_Timestamp True, Receiver_LastReceivedTimeMs True, RtpRtcp_RemoteNTP 0,
          Rtcp_UpdateRtcpList True,
          Sync_ComputeRelativeDelay True 100,
          Sync_ComputeDelays 100 35 0 40 True 65 40,
          Voe_SetMinimumPlayoutDelay 0 65 0,
          Vcm_SetMinimumPlayoutDelay 40])"
  by (simp add: Process_def UpdateMeasurements_def sample_defs)

lemma Process_world_no_estimate:
  "Process world_no_estimate module_bound =
    Inr (module_bound\<lparr>m_last_sync_time := 2000\<rparr>,
         [Vcm_Delay 40, Voe_GetDelayEstimate 0 (- 1) 0 0])"
  by (simp add: Process_def sample_defs)

section \<open>The controller's states\<close>

text \<open>
  C1: a module that \<^verbatim>\<open>ConfigureSync\<close> returns with the channel id -1 is
  disabled, and every later run of \<^verbatim>\<open>Process\<close> cycles, in whatever worlds,
  returns, leaves it disabled and calls no setter of a collaborator; a module that
  \<^verbatim>\<open>ConfigureSync\<close> returns with another channel id is not disabled.
\<close>

theorem ConfigureSync_disabled_makes_no_setter_call:
  "(ConfigureSync w (- 1) voe vrtp recv m = Inr m1 \<longrightarrow>
      Disabled m1 \<and>
      (\<exists>m2 t. run_cycles ws m1 = Inr (m2, t) \<and> Disabled m2 \<and>
         (\<forall>e\<in>set t. \<not> is_setter e))) \<and>
   (ch \<noteq> - 1 \<longrightarrow> ConfigureSync w ch voe' vrtp' recv' m = Inr m1' \<longrightarrow> \<not> Disabled m1')"
proof (intro conjI impI)
  assume c: "ConfigureSync w (- 1) voe vrtp recv m = Inr m1"
  then show d: "Disabled m1"
    by (simp add: Disabled_def ConfigureSync_stores)
  show "\<exists>m2 t. run_cycles ws m1 = Inr (m2, t) \<and> Disabled m2 \<and> (\<forall>e\<in>set t. \<not> is_setter e)"
    using d by (rule run_cycles_disabled)
next
  assume "ch \<noteq> - 1" "ConfigureSync w ch voe' vrtp' recv' m = Inr m1'"
  then show "\<not> Disabled m1'"
    by (simp add: Disabled_def ConfigureSync_stores)
qed

theorem ConfigureSync_disabled_makes_no_setter_call_witness:
  "(\<exists>m1. ConfigureSync world_ready (- 1) None (Some 2) (Some 5) module_bound = Inr m1 \<and>
      Disabled m1 \<and>
      (\<exists>m2 t. run_cycles [world_ready, world_no_estimate] m1 = Inr (m2, t) \<and> Disabled m2 \<and>
         (\<forall>e\<in>set t. \<not> is_setter e))) \<and>
   (\<exists>m1'. ConfigureSync world_ready 0 (Some 1) (Some 2) (Some 5)
            (ViESyncModule_new world_ready) = Inr m1' \<and> \<not> Disabled m1')"
proof -
  obtain m1 where c: "ConfigureSync world_ready (- 1) None (Some 2) (Some 5) module_bound = Inr m1"
    by (simp add: ConfigureSync_def sample_defs)
  obtain m1' where c': "ConfigureSync world_ready 0 (Some 1) (Some 2) (Some 5)
      (ViESyncModule_new world_ready) = Inr m1'"
    by (simp add: ConfigureSync_def ViESyncModule_new_def sample_defs)
  have n: "(0 :: int32) \<noteq> - 1" by simp
  show ?thesis
    using ConfigureSync_disabled_makes_no_setter_call
      [of world_ready None "Some 2" "Some 5" module_bound m1 "[world_ready, world_no_estimate]"
        0 "Some 1" "Some 2" "Some 5" m1']
      ConfigureSync_disabled_makes_no_setter_call
      [of world_ready None None None "ViESyncModule_new world_ready" m1 "[]"
        0 "Some 1" "Some 2" "Some 5" m1'] c c' n
    by blast
qed

text \<open>
  C2: \<^verbatim>\<open>ConfigureSync\<close> called again with the arguments of a call that
  returned, at once or after any number of \<^verbatim>\<open>Process\<close> cycles, returns the
  module as it is: no member changes, so the measurements with their RTCP lists and the
  \<^verbatim>\<open>StreamSynchronization\<close> object are the ones held before the call.
\<close>

theorem ConfigureSync_idempotent:
  assumes "ConfigureSync w ch voe vrtp recv m = Inr m1"
    and "run_cycles ws m1 = Inr (m2, t)"
    and "dcheck_is_on w' = dcheck_is_on w"
  shows "ConfigureSync w' ch voe vrtp recv m2 = Inr m2"
proof -
  have s: "m_voe_channel_id m1 = ch" "m_voe_sync_interface m1 = voe"
    "m_video_receiver m1 = recv" "m_video_rtp_rtcp m1 = vrtp"
    "\<not> (ch \<noteq> - 1 \<and> dcheck_is_on w \<and> voe = None)"
    using ConfigureSync_stores [OF assms(1)] by simp_all
  have "same_config m1 m2"
    using assms(2) by (rule run_cycles_same_config)
  then have "m_voe_channel_id m2 = ch" "m_voe_sync_interface m2 = voe"
    "m_video_receiver m2 = recv" "m_video_rtp_rtcp m2 = vrtp"
    using s by (simp_all add: same_config_def)
  then show ?thesis
    using s(5) assms(3) by (intro ConfigureSync_same_arguments) simp_all
qed

theorem ConfigureSync_idempotent_witness:
  "\<exists>m2 t.
     ConfigureSync world_ready 0 (Some 1) (Some 2) (Some 5)
       (module_bound\<lparr>m_voe_channel_id := 7\<rparr>) = Inr (module_bound\<lparr>m_sync := Some 0\<rparr>) \<and>
     run_cycles [world_ready] (module_bound\<lparr>m_sync := Some 0\<rparr>) = Inr (m2, t) \<and>
     rtcp (m_video_measurement m2) = [(100, 0, 45000), (99, 0, 40000)] \<and>
     m_sync m2 = Some 1 \<and>
     ConfigureSync world_no_estimate 0 (Some 1) (Some 2) (Some 5) m2 = Inr m2"
proof -
  let ?m1 = "module_bound\<lparr>m_sync := Some 0\<rparr>"
  have c: "ConfigureSync world_ready 0 (Some 1) (Some 2) (Some 5)
      (module_bound\<lparr>m_voe_channel_id := 7\<rparr>) = Inr ?m1"
    by (simp add: ConfigureSync_def sample_defs)
  obtain m2 t where r: "run_cycles [world_ready] ?m1 = Inr (m2, t)"
    and h: "rtcp (m_video_measurement m2) = [(100, 0, 45000), (99, 0, 40000)]"
      "m_sync m2 = Some 1"
    by (simp add: Process_def UpdateMeasurements_def sample_defs)
  have d: "dcheck_is_on world_no_estimate = dcheck_is_on world_ready"
    by (simp add: sample_defs)
  show ?thesis
    using ConfigureSync_idempotent [OF c r d] c r h by simp
qed

section \<open>A cycle that fails\<close>

text \<open>
  C3: in a cycle of a module that is not disabled, if any stage reports failure (the delay
  estimate query, the RTP/RTCP handle query, a step of either stream's measurement update,
  the relative delay computation, or the delay computation), then no setter of a
  collaborator is called in that cycle, and the module is left bound as it was: it is not
  disabled and its configuration is unchanged, so the next cycle runs the same stages.
\<close>

theorem Process_failed_stage_skips_cycle:
  assumes "\<not> Disabled m" and "Process w m = Inr (m', t)" and "\<exists>e\<in>set t. stage_failed e"
  shows "(\<forall>e\<in>set t. \<not> is_setter e) \<and> \<not> Disabled m' \<and> same_config m m'"
proof -
  have c: "same_config m m'"
    using assms(2) by (rule Process_same_config)
  have "\<forall>e\<in>set t. \<not> is_setter e"
    using Process_failed_no_setter [OF assms(2) assms(3)] by blast
  then show ?thesis
    using c assms(1) by (simp add: same_config_def Disabled_def)
qed

theorem Process_failed_stage_skips_cycle_witness:
  "\<not> Disabled module_bound \<and>
   (\<exists>m' t. Process world_no_estimate module_bound = Inr (m', t) \<and>
      (\<exists>e\<in>set t. stage_failed e) \<and> (\<forall>e\<in>set t. \<not> is_setter e) \<and>
      \<not> Disabled m' \<and> same_config module_bound m')"
proof -
  have a: "\<not> Disabled module_bound"
    by (simp add: Disabled_def module_bound_def)
  have f: "\<exists>e\<in>set [Vcm_Delay 40, Voe_GetDelayEstimate 0 (- 1) 0 0]. stage_failed e"
    by simp
  show ?thesis
    using Process_failed_stage_skips_cycle [OF a Process_world_no_estimate f] a f
      Process_world_no_estimate
    by simp
qed

text \<open>
  C4 (as stated): when \<^verbatim>\<open>UpdateMeasurements\<close> fails, no field of the stream's
  measurement differs from its value before the call.  It does: with a receiver that has a
  timestamp (90000) but no receive time yet, the function returns -1 after it has written
  the timestamp into the record, whose timestamp was 0.
\<close>

theorem UpdateMeasurements_partial_write:
  "UpdateMeasurements world_ready Measurements_init rtp_rtcp_ready receiver_no_time =
     (- 1, Measurements_init\<lparr>latest_timestamp := 90000\<rparr>,
      [Receiver_Timestamp True, Receiver_LastReceivedTimeMs False]) \<and>
   latest_timestamp Measurements_init = 0"
  by (simp add: UpdateMeasurements_def receiver_no_time_def Measurements_init_def)

text \<open>
  C4 (amended): when \<^verbatim>\<open>UpdateMeasurements\<close> fails it returns -1.  The record
  is as before the call only when the receiver has no timestamp.  When the receiver has a
  timestamp, that timestamp is written; when it has a receive time as well, that is written
  too.  The RTCP list is unchanged when the failure is one of the three queries (no
  timestamp, no receive time, no remote sender report); when the list update rejects the
  sample, the list is the one \<^verbatim>\<open>UpdateRtcpList\<close> leaves.
\<close>

theorem UpdateMeasurements_failure:
  assumes "UpdateMeasurements w stream rtp_rtcp receiver = (r, stream', t)" and "r \<noteq> 0"
  shows "r = - 1 \<and>
         (Timestamp receiver = None \<longrightarrow> stream' = stream) \<and>
         (\<forall>ts. Timestamp receiver = Some ts \<longrightarrow>
            (LastReceivedTimeMs receiver = None \<longrightarrow>
               stream' = stream\<lparr>latest_timestamp := ts\<rparr>) \<and>
            (\<forall>tm. LastReceivedTimeMs receiver = Some tm \<longrightarrow>
               (fst (RemoteNTP rtp_rtcp) \<noteq> 0 \<longrightarrow>
                  stream' = stream\<lparr>latest_timestamp := ts, latest_receive_time_ms := tm\<rparr>) \<and>
               (\<forall>secs frac rts. RemoteNTP rtp_rtcp = (0, secs, frac, rts) \<longrightarrow>
                  \<not> fst (UpdateRtcpList w secs frac rts (rtcp stream)) \<and>
                  stream' = stream\<lparr>latest_timestamp := ts, latest_receive_time_ms := tm,
                    rtcp := snd (UpdateRtcpList w secs frac rts (rtcp stream))\<rparr>)))"
  using assms
  by (auto simp: UpdateMeasurements_def Let_def split: option.splits prod.splits if_splits)

theorem UpdateMeasurements_failure_witness:
  "UpdateMeasurements world_ready (m_video_measurement module_bound) rtp_rtcp_ready
     receiver_no_time =
     (- 1, (m_video_measurement module_bound)\<lparr>latest_timestamp := 90000\<rparr>,
      [Receiver_Timestamp True, Receiver_LastReceivedTimeMs False]) \<and>
   Timestamp receiver_no_time = Some 90000 \<and> LastReceivedTimeMs receiver_no_time = None \<and>
   rtcp ((m_video_measurement module_bound)\<lparr>latest_timestamp := 90000\<rparr>) = [(99, 0, 40000)]"
proof -
  have u: "UpdateMeasurements world_ready (m_video_measurement module_bound) rtp_rtcp_ready
      receiver_no_time =
      (- 1, (m_video_measurement module_bound)\<lparr>latest_timestamp := 90000\<rparr>,
       [Receiver_Timestamp True, Receiver_LastReceivedTimeMs False])"
    by (simp add: UpdateMeasurements_def receiver_no_time_def)
  have n: "(- 1 :: int32) \<noteq> 0" by simp
  show ?thesis
    using UpdateMeasurements_failure [OF u n] u
    by (simp add: receiver_no_time_def module_bound_def)
qed

section \<open>A cycle that succeeds\<close>



text \<open>
  C9: in every cycle that gets as far as a successful relative delay computation,
  \<^verbatim>\<open>ComputeDelays\<close> is called, and every call of it in a cycle is the
  call \<^verbatim>\<open>ComputeDelays(relative_delay_ms, current_audio_delay_ms, &0,
  &current_video_delay_ms)\<close> in which the current audio delay is the sum of the jitter
  buffer delay and the playout buffer delay that \<^verbatim>\<open>GetDelayEstimate\<close>
  answered for the bound channel: the object is the one the relative delay computation
  left, the event records what that call answered, and the module afterwards holds the
  object the call left.  The sum is that of two \<^verbatim>\<open>int\<close> values; read as
  signed numbers it is the sum of the two numbers whenever that fits 32 bits.
\<close>

theorem Process_current_audio_delay_is_sum:
  assumes "Process w m = Inr (m', t)"
  shows "(\<forall>d a ta0 tv0 ok ta tv. Sync_ComputeDelays d a ta0 tv0 ok ta tv \<in> set t \<longrightarrow>
            (\<exists>voe j p s0 s s'.
               m_voe_sync_interface m = Some voe \<and>
               GetDelayEstimate (voe_at w voe) (m_voe_channel_id m) = (0, j, p) \<and>
               Voe_GetDelayEstimate (m_voe_channel_id m) 0 j p \<in> set t \<and>
               a = j + p \<and> ta0 = 0 \<and> tv0 = vcm_Delay w \<and>
               m_sync m = Some s0 \<and>
               ComputeRelativeDelay w s0 (m_audio_measurement m') (m_video_measurement m') =
                 (True, d, s) \<and>
               ComputeDelays w s d (j + p) 0 (vcm_Delay w) = (ok, ta, tv, s') \<and>
               m_sync m' = Some s' \<and>
               (- (2 ^ 31) \<le> sint j + sint p \<and> sint j + sint p < 2 ^ 31 \<longrightarrow>
                  sint a = sint j + sint p))) \<and>
         (\<forall>d. Sync_ComputeRelativeDelay True d \<in> set t \<longrightarrow>
            (\<exists>voe j p ok ta tv.
               m_voe_sync_interface m = Some voe \<and>
               GetDelayEstimate (voe_at w voe) (m_voe_channel_id m) = (0, j, p) \<and>
               Sync_ComputeDelays d (j + p) 0 (vcm_Delay w) ok ta tv \<in> set t))"
proof (intro conjI allI impI)
  fix d a ta0 tv0 ok ta tv
  assume e: "Sync_ComputeDelays d a ta0 tv0 ok ta tv \<in> set t"
  from Process_ComputeDelays_call [OF assms e] obtain voe j p s0 s s' where
    h: "m_voe_sync_interface m = Some voe"
      "GetDelayEstimate (voe_at w voe) (m_voe_channel_id m) = (0, j, p)"
      "Voe_GetDelayEstimate (m_voe_channel_id m) 0 j p \<in> set t"
      "a = j + p" "ta0 = 0" "tv0 = vcm_Delay w"
      "m_sync m = Some s0"
      "ComputeRelativeDelay w s0 (m_audio_measurement m') (m_video_measurement m') =
         (True, d, s)"
      "ComputeDelays w s d (j + p) 0 (vcm_Delay w) = (ok, ta, tv, s')"
      "m_sync m' = Some s'"
    by blast
  have sg: "- (2 ^ 31) \<le> sint j + sint p \<and> sint j + sint p < 2 ^ 31 \<longrightarrow>
      sint a = sint j + sint p"
    using h(4) sint_add_in_range [of j p] by simp
  show "\<exists>voe j p s0 s s'.
      m_voe_sync_interface m = Some voe \<and>
      GetDelayEstimate (voe_at w voe) (m_voe_channel_id m) = (0, j, p) \<and>
      Voe_GetDelayEstimate (m_voe_channel_id m) 0 j p \<in> set t \<and>
      a = j + p \<and> ta0 = 0 \<and> tv0 = vcm_Delay w \<and>
      m_sync m = Some s0 \<and>
      ComputeRelativeDelay w s0 (m_audio_measurement m') (m_video_measurement m') =
        (True, d, s) \<and>
      ComputeDelays w s d (j + p) 0 (vcm_Delay w) = (ok, ta, tv, s') \<and>
      m_sync m' = Some s' \<and>
      (- (2 ^ 31) \<le> sint j + sint p \<and> sint j + sint p < 2 ^ 31 \<longrightarrow>
         sint a = sint j + sint p)"
    by (insert h sg, rule exI [of _ voe], rule exI [of _ j], rule exI [of _ p],
        rule exI [of _ s0], rule exI [of _ s], rule exI [of _ s'], blast)
next
  fix d
  assume r: "Sync_ComputeRelativeDelay True d \<in> set t"
  from Process_calls_ComputeDelays [OF assms r] obtain e where
    e: "e \<in> set t"
      "case e of Sync_ComputeDelays d' a ta0 tv0 ok ta tv \<Rightarrow> d' = d | _ \<Rightarrow> False"
    by blast
  show "\<exists>voe j p ok ta tv.
      m_voe_sync_interface m = Some voe \<and>
      GetDelayEstimate (voe_at w voe) (m_voe_channel_id m) = (0, j, p) \<and>
      Sync_ComputeDelays d (j + p) 0 (vcm_Delay w) ok ta tv \<in> set t"
  proof (cases e)
    case (Sync_ComputeDelays d' a ta0 tv0 ok ta tv)
    with e have c: "Sync_ComputeDelays d a ta0 tv0 ok ta tv \<in> set t"
      by simp
    from Process_ComputeDelays_call [OF assms c] obtain voe j p where
      h: "m_voe_sync_interface m = Some voe"
        "GetDelayEstimate (voe_at w voe) (m_voe_channel_id m) = (0, j, p)"
        "a = j + p" "ta0 = 0" "tv0 = vcm_Delay w"
      by blast
    show ?thesis
      by (insert h c, rule exI [of _ voe], rule exI [of _ j], rule exI [of _ p],
          rule exI [of _ ok], rule exI [of _ ta], rule exI [of _ tv], simp)
  qed (use e in simp_all)
qed

theorem Process_current_audio_delay_is_sum_witness:
  "\<exists>m' t. Process world_ready module_bound = Inr (m', t) \<and>
     Sync_ComputeRelativeDelay True 100 \<in> set t \<and>
     Sync_ComputeDelays 100 35 0 40 True 65 40 \<in> set t \<and>
     (\<exists>voe j p s s'.
        m_voe_sync_interface module_bound = Some voe \<and>
        GetDelayEstimate (voe_at world_ready voe) (m_voe_channel_id module_bound) = (0, j, p) \<and>
        35 = j + p \<and>
        ComputeDelays world_ready s 100 (j + p) 0 (vcm_Delay world_ready) = (True, 65, 40, s') \<and>
        m_sync m' = Some s') \<and>
     GetDelayEstimate (voe_at world_ready 1) 0 = (0, 20, 15)"
proof -
  obtain m' t where p: "Process world_ready module_bound = Inr (m', t)"
    and e: "Sync_ComputeDelays 100 35 0 40 True 65 40 \<in> set t"
      "Sync_ComputeRelativeDelay True 100 \<in> set t"
    by (simp add: Process_world_ready)
  have a: "\<forall>d a ta0 tv0 ok ta tv. Sync_ComputeDelays d a ta0 tv0 ok ta tv \<in> set t \<longrightarrow>
      (\<exists>voe j p s s'.
         m_voe_sync_interface module_bound = Some voe \<and>
         GetDelayEstimate (voe_at world_ready voe) (m_voe_channel_id module_bound) = (0, j, p) \<and>
         a = j + p \<and>
         ComputeDelays world_ready s d (j + p) 0 (vcm_Delay world_ready) = (ok, ta, tv, s') \<and>
         m_sync m' = Some s')"
    using Process_current_audio_delay_is_sum [OF p] by blast
  have b: "\<exists>voe j p s s'.
      m_voe_sync_interface module_bound = Some voe \<and>
      GetDelayEstimate (voe_at world_ready voe) (m_voe_channel_id module_bound) = (0, j, p) \<and>
      35 = j + p \<and>
      ComputeDelays world_ready s 100 (j + p) 0 (vcm_Delay world_ready) = (True, 65, 40, s') \<and>
      m_sync m' = Some s'"
    using a [rule_format, OF e(1)] .
  have g: "GetDelayEstimate (voe_at world_ready 1) 0 = (0, 20, 15)"
    by (simp add: world_ready_def voe_ready_def)
  show ?thesis
    using p e b g by blast
qed

section \<open>Reconfiguration with new arguments\<close>

text \<open>
  C10 (as stated): every call of \<^verbatim>\<open>ConfigureSync\<close> whose arguments differ
  from the stored configuration dereferences the video RTCP module and replaces the
  \<^verbatim>\<open>StreamSynchronization\<close> object.  Not every one: on a newly constructed
  module (stored channel id -1), in a build with \<^verbatim>\<open>RTC_DCHECK\<close> compiled
  in, the call with channel id 0 and a null sync interface stops at the
  \<^verbatim>\<open>RTC_DCHECK\<close> of the first statement, before anything is dereferenced or
  replaced.
\<close>

theorem ConfigureSync_dcheck_before_dereference:
  "ConfigureSync world_ready 0 None (Some 2) (Some 5) (ViESyncModule_new world_ready) =
     Inl DCheckFailed \<and>
   m_voe_channel_id (ViESyncModule_new world_ready) \<noteq> 0"
  by (simp add: ConfigureSync_def ViESyncModule_new_def world_ready_def)

text \<open>
  C10 (amended): a call of \<^verbatim>\<open>ConfigureSync\<close> whose arguments differ from the
  stored configuration, the channel id -1 included, stops at the
  \<^verbatim>\<open>RTC_DCHECK\<close> when the channel id is not -1, the sync interface is null
  and the check is compiled in.  Every other such call stores the four arguments and calls
  \<^verbatim>\<open>SSRC()\<close> through the video RTCP module it is given: with a null module
  the call is a null dereference; with a module it returns, and \<^verbatim>\<open>sync_\<close>
  then holds a newly constructed \<^verbatim>\<open>StreamSynchronization\<close> for that SSRC and
  the channel id, whatever object it held before.
\<close>

theorem ConfigureSync_changed_arguments:
  assumes "\<not> (m_voe_channel_id m = ch \<and> m_voe_sync_interface m = voe \<and>
              m_video_receiver m = recv \<and> m_video_rtp_rtcp m = vrtp)"
  shows "(ch \<noteq> - 1 \<and> dcheck_is_on w \<and> voe = None \<longrightarrow>
            ConfigureSync w ch voe vrtp recv m = Inl DCheckFailed) \<and>
         (\<not> (ch \<noteq> - 1 \<and> dcheck_is_on w \<and> voe = None) \<longrightarrow>
            (vrtp = None \<longrightarrow> ConfigureSync w ch voe vrtp recv m = Inl NullDereference) \<and>
            (\<forall>a. vrtp = Some a \<longrightarrow>
               ConfigureSync w ch voe vrtp recv m =
                 Inr (m\<lparr>m_video_receiver := recv, m_video_rtp_rtcp := vrtp,
                        m_voe_channel_id := ch, m_voe_sync_interface := voe,
                        m_sync := Some (new_StreamSynchronization w
                                          (SSRC (rtp_rtcp_at w a)) ch)\<rparr>)))"
  using assms by (cases vrtp) (auto simp: ConfigureSync_def Let_def)

theorem ConfigureSync_changed_arguments_witness:
  "ConfigureSync world_ready (- 1) None None None module_bound = Inl NullDereference \<and>
   ConfigureSync world_ready (- 1) None (Some 2) (Some 5) module_bound =
     Inr (module_bound\<lparr>m_voe_channel_id := - 1, m_voe_sync_interface := None,
            m_sync := Some 0\<rparr>) \<and>
   ConfigureSync world_ready 7 None (Some 2) (Some 5) module_bound = Inl DCheckFailed \<and>
   m_sync module_bound = Some 3"
proof -
  have a: "\<not> (m_voe_channel_id module_bound = - 1 \<and> m_voe_sync_interface module_bound = None \<and>
      m_video_receiver module_bound = None \<and> m_video_rtp_rtcp module_bound = None)"
    "\<not> (m_voe_channel_id module_bound = - 1 \<and> m_voe_sync_interface module_bound = None \<and>
      m_video_receiver module_bound = Some 5 \<and> m_video_rtp_rtcp module_bound = Some 2)"
    "\<not> (m_voe_channel_id module_bound = 7 \<and> m_voe_sync_interface module_bound = None \<and>
      m_video_receiver module_bound = Some 5 \<and> m_video_rtp_rtcp module_bound = Some 2)"
    by (simp_all add: module_bound_def)
  have s: "new_StreamSynchronization world_ready (SSRC (rtp_rtcp_at world_ready 2)) (- 1) = 0"
    "m_sync module_bound = Some 3" "dcheck_is_on world_ready"
    by (simp_all add: sample_defs)
  show ?thesis
    using ConfigureSync_changed_arguments [OF a(1), of world_ready]
      ConfigureSync_changed_arguments [OF a(2), of world_ready]
      ConfigureSync_changed_arguments [OF a(3), of world_ready] s
    by (simp add: module_bound_def)
qed

section \<open>The delay distributor of the specification\<close>

text \<open>The scenario of section 8 of the specification, on the modelled distributor.\<close>

lemma ComputeDelays_spec_scenario:
  "ComputeDelays_spec \<lparr>max_step_ms = 30, max_delay_ms = 400, hysteresis_ms = 10\<rparr> 100 20 40 =
     (50, 40)"
  by (simp add: ComputeDelays_spec_def)

text \<open>
  The clamp and the floor together: a target is above the configured maximum only where
  the current delay already is, and it is then the current delay.
\<close>

lemma ComputeDelays_spec_clamped:
  assumes "ComputeDelays_spec cfg d a v = (ta, tv)"
  shows "ta \<le> max a (max_delay_ms cfg) \<and> tv \<le> max v (max_delay_ms cfg)"
  using assms by (auto simp: ComputeDelays_spec_def split: if_splits)

lemma ComputeDelays_spec_above_maximum:
  "ComputeDelays_spec \<lparr>max_step_ms = 30, max_delay_ms = 400, hysteresis_ms = 10\<rparr> (- 100) 20 500 =
     (20, 500)"
  by (simp add: ComputeDelays_spec_def)

text \<open>
  C7: for every relative delay, current audio delay and current video delay, the target
  video delay of the modelled distributor is at least the current video delay, and neither
  the target audio delay nor the target video delay differs from its current delay by more
  than the maximum step.
\<close>

theorem ComputeDelays_spec_bounded:
  assumes "ComputeDelays_spec cfg d a v = (ta, tv)"
  shows "v \<le> tv \<and> \<bar>ta - a\<bar> \<le> int (max_step_ms cfg) \<and> \<bar>tv - v\<bar> \<le> int (max_step_ms cfg)"
  using assms by (auto simp: ComputeDelays_spec_def split: if_splits)

theorem ComputeDelays_spec_bounded_witness:
  "ComputeDelays_spec \<lparr>max_step_ms = 30, max_delay_ms = 400, hysteresis_ms = 10\<rparr> (- 100) 20 390 =
     (20, 400) \<and>
   (390 :: int) \<le> 400 \<and> \<bar>20 - 20 :: int\<bar> \<le> 30 \<and> \<bar>400 - 390 :: int\<bar> \<le> 30"
proof -
  let ?cfg = "\<lparr>max_step_ms = 30, max_delay_ms = 400, hysteresis_ms = 10\<rparr>"
  have c: "ComputeDelays_spec ?cfg (- 100) 20 390 = (20, 400)"
    by (simp add: ComputeDelays_spec_def)
  show ?thesis
    using ComputeDelays_spec_bounded [OF c] c by simp
qed

text \<open>
  C8: when the relative delay is within the tolerance band around zero, the modelled
  distributor returns the current audio delay and the current video delay as the targets.
\<close>

theorem ComputeDelays_spec_hysteresis:
  "\<bar>d\<bar> \<le> hysteresis_ms cfg \<Longrightarrow> ComputeDelays_spec cfg d a v = (a, v)"
  by (simp add: ComputeDelays_spec_def)

theorem ComputeDelays_spec_hysteresis_witness:
  "\<bar>- 7 :: int\<bar> \<le> hysteresis_ms \<lparr>max_step_ms = 30, max_delay_ms = 400, hysteresis_ms = 10\<rparr> \<and>
   ComputeDelays_spec \<lparr>max_step_ms = 30, max_delay_ms = 400, hysteresis_ms = 10\<rparr> (- 7) 20 40 =
     (20, 40)"
  using ComputeDelays_spec_hysteresis
    [of "- 7" "\<lparr>max_step_ms = 30, max_delay_ms = 400, hysteresis_ms = 10\<rparr>" 20 40]
  by simp

end
